theory Spec2Isabelle
  imports Main "HOL-Library.Word"
begin

unbundle bit_operations_syntax

section \<open>Machine types\<close>

text \<open>
  The sources are C++ for a target whose \<open>int\<close> has 32 bits (ESP32, and the desktop
  build of the stand-alone codec). \<open>unsigned char\<close>/\<open>uint8_t\<close> is \<open>8 word\<close>,
  \<open>unsigned short\<close>/\<open>uint16_t\<close> is \<open>16 word\<close>, \<open>uint32_t\<close> is \<open>32 word\<close>.
  Operands of \<open>&\<close>, \<open>|\<close>, \<open><<\<close>, \<open>>>\<close> and \<open>+\<close> narrower than \<open>int\<close> are promoted to
  \<open>int\<close> first; every intermediate value below is non-negative and smaller than
  \<open>2 ^ 31\<close>, so the promoted value is kept in a \<open>32 word\<close> (\<open>c_int\<close>) and the
  conversion back to the narrower unsigned type is \<open>ucast\<close> (reduction modulo
  \<open>2 ^ 8\<close> or \<open>2 ^ 16\<close>).
\<close>

type_synonym u8 = "8 word"
type_synonym u16 = "16 word"
type_synonym u32 = "32 word"
type_synonym c_int = "32 word"

text \<open>\<open>m |= x\<close> on an \<open>unsigned short m\<close> with an \<open>int\<close> operand \<open>x\<close>.\<close>

definition or_assign :: "u16 \<Rightarrow> c_int \<Rightarrow> u16" where
  "or_assign m x = ucast ((ucast m :: c_int) OR x)"

section \<open>The frame: \<open>Command\<close> and \<open>ProtocolStructure\<close>\<close>

text \<open>
  Both \<open>Command\<close> enumerations have a fixed underlying type of one byte, so a
  \<open>Command\<close> object can hold any byte (\<open>static_cast<Command>\<close> in the decoders
  produces values that are no enumerator). The type is therefore the byte, and the
  enumerators are named constants.
\<close>

type_synonym Command = u8

text \<open>\<open>protocol.h\<close>, namespace \<open>coder_decoder\<close>: \<open>enum Command { SEND, TEST = 0b101 }\<close>.\<close>

definition SEND :: Command where "SEND = 0"
definition TEST :: Command where "TEST = 5"

definition coder_decoder_Commands :: "Command list" where
  "coder_decoder_Commands = [SEND, TEST]"

text \<open>\<open>M16-lib.h\<close>: the eight enumerators \<open>HI\<close> .. \<open>SENSOR_DATA_RECEIVED\<close>, numbered from 0.\<close>

definition HI :: Command where "HI = 0"
definition REQUEST_DATA :: Command where "REQUEST_DATA = 1"
definition FINISHED :: Command where "FINISHED = 2"
definition TEMP_SENSOR :: Command where "TEMP_SENSOR = 3"
definition PRESSURE_SENSOR :: Command where "PRESSURE_SENSOR = 4"
definition CONDUCTIVITY_SENSOR :: Command where "CONDUCTIVITY_SENSOR = 5"
definition PH_SENSOR :: Command where "PH_SENSOR = 6"
definition SENSOR_DATA_RECEIVED :: Command where "SENSOR_DATA_RECEIVED = 7"

definition M16_Commands :: "Command list" where
  "M16_Commands = [HI, REQUEST_DATA, FINISHED, TEMP_SENSOR, PRESSURE_SENSOR,
     CONDUCTIVITY_SENSOR, PH_SENSOR, SENSOR_DATA_RECEIVED]"

text \<open>
  \<open>struct ProtocolStructure { unsigned char id; Command command; unsigned short data; }\<close>,
  the same in \<open>protocol.h\<close> and in \<open>include/M16-lib.h\<close>. (An earlier revision of
  \<open>M16-lib.h\<close> declares \<open>data\<close> as \<open>unsigned char\<close>; the M16 decoders only ever store
  values below 256 in it, so the wider field holds every value of the narrower one.)
  The field \<open>id\<close> is called \<open>id_field\<close> here, \<open>id\<close> being the identity function of HOL.
\<close>

record ProtocolStructure =
  id_field :: u8
  command :: Command
  data :: u16

section \<open>\<open>protocol.cpp\<close>: the 3-3-10 codec of namespace \<open>coder_decoder\<close>\<close>

text \<open>\<open>coder_decoder::encode(unsigned char id, Command command, unsigned short data)\<close>.\<close>

definition coder_decoder_encode :: "u8 \<Rightarrow> Command \<Rightarrow> u16 \<Rightarrow> u16" where
  "coder_decoder_encode i c d =
     (let codedMessage = 0;
          codedMessage = or_assign codedMessage (push_bit (5 + 8) (7 AND ucast i));
          codedMessage = or_assign codedMessage (push_bit (2 + 8) (7 AND ucast c));
          codedMessage = or_assign codedMessage (1023 AND ucast d)
      in codedMessage)"

text \<open>\<open>coder_decoder::encode(ProtocolStructure send)\<close>.\<close>

definition coder_decoder_encode_struct :: "ProtocolStructure \<Rightarrow> u16" where
  "coder_decoder_encode_struct send =
     coder_decoder_encode (id_field send) (command send) (data send)"

text \<open>
  \<open>coder_decoder::code\<close>, the encoder of the older \<open>protocol.cpp\<close> for the same
  layout: \<open>id\<close> and \<open>command\<close> are shifted without a mask, only \<open>data\<close> is masked.
\<close>

definition coder_decoder_code :: "u8 \<Rightarrow> Command \<Rightarrow> u16 \<Rightarrow> u16" where
  "coder_decoder_code i c d =
     (let codedMessage = 0;
          codedMessage = or_assign codedMessage (push_bit (5 + 8) (ucast i));
          codedMessage = or_assign codedMessage (push_bit (2 + 8) (ucast c));
          codedMessage = or_assign codedMessage (1023 AND ucast d)
      in codedMessage)"

definition coder_decoder_code_struct :: "ProtocolStructure \<Rightarrow> u16" where
  "coder_decoder_code_struct send =
     coder_decoder_code (id_field send) (command send) (data send)"

text \<open>\<open>coder_decoder::decode(unsigned short messageToDecode)\<close>, identical in both revisions.\<close>

definition coder_decoder_decode :: "u16 \<Rightarrow> ProtocolStructure" where
  "coder_decoder_decode messageToDecode =
     \<lparr> id_field = ucast (7 AND drop_bit (5 + 8) (ucast messageToDecode :: c_int)),
       command = ucast (7 AND drop_bit (2 + 8) (ucast messageToDecode :: c_int)),
       data = ucast ((ucast messageToDecode :: c_int) AND 1023) \<rparr>"

section \<open>\<open>M16-lib.cpp\<close>: the 4-4-8 codec of class \<open>M16\<close>\<close>

text \<open>
  \<open>M16::encode(unsigned char id, Command command, unsigned char data)\<close>, as
  \<open>M16-lib.cpp\<close> defines it. (\<open>include/M16-lib.h\<close> declares \<open>data\<close> as
  \<open>unsigned short\<close>; the body masks it with \<open>0xFF\<close>, so only its low byte matters
  either way.)
\<close>

definition M16_encode :: "u8 \<Rightarrow> Command \<Rightarrow> u8 \<Rightarrow> u16" where
  "M16_encode i c d =
     (let codedMessage = 0;
          codedMessage = or_assign codedMessage (push_bit (4 + 8) (15 AND ucast i));
          codedMessage = or_assign codedMessage (push_bit 8 (15 AND ucast c));
          codedMessage = or_assign codedMessage (255 AND ucast d)
      in codedMessage)"

text \<open>
  \<open>M16::encode(ProtocolStructure send)\<close>: passing the \<open>unsigned short\<close> field \<open>data\<close>
  for the \<open>unsigned char\<close> parameter converts it, keeping its low byte.
\<close>

definition M16_encode_struct :: "ProtocolStructure \<Rightarrow> u16" where
  "M16_encode_struct send =
     M16_encode (id_field send) (command send) (ucast (data send))"

text \<open>\<open>M16::decode(unsigned short messageToDecode)\<close>.\<close>

definition M16_decode :: "u16 \<Rightarrow> ProtocolStructure" where
  "M16_decode messageToDecode =
     (let result = \<lparr> id_field = 0, command = HI, data = 0 \<rparr>;
          result = result\<lparr> id_field := ucast (15 AND drop_bit (4 + 8) (ucast messageToDecode :: c_int)) \<rparr>;
          result = result\<lparr> command := ucast (15 AND drop_bit 8 (ucast messageToDecode :: c_int)) \<rparr>;
          result = result\<lparr> data := ucast ((ucast messageToDecode :: c_int) AND 255) \<rparr>
      in result)"

text \<open>
  \<open>M16::decode(uint8_t *messageToDecode)\<close>: the buffer is a list of bytes of which
  elements 0 and 1 are read (the caller must supply at least two).
\<close>

definition M16_decode_bytes :: "u8 list \<Rightarrow> ProtocolStructure" where
  "M16_decode_bytes messageToDecode =
     (let result = \<lparr> id_field = 0, command = HI, data = 0 \<rparr>;
          result = result\<lparr> id_field := ucast (15 AND drop_bit 4 (ucast (messageToDecode ! 0) :: c_int)) \<rparr>;
          result = result\<lparr> command := ucast (15 AND (ucast (messageToDecode ! 0) :: c_int)) \<rparr>;
          result = result\<lparr> data := ucast (messageToDecode ! 1) \<rparr>
      in result)"

section \<open>The modem session: state and environment\<close>

text \<open>\<open>struct Report\<close> of \<open>M16-lib.h\<close>.\<close>

record Report =
  startOfFrame :: u8
  transportBlock :: u16
  bitErrorRate :: u8
  signalPower :: u8
  noisePower :: u8
  packetValid :: u16
  packedInvalid :: u8
  firmwareVersion :: u8
  timeSinceBoot :: u32
  chipID :: u16
  hwRev :: u8
  channel :: u8
  tbValid :: u8
  txComplete :: u8
  diagnostic :: u8
  reserved :: u8
  powerLevel :: u8
  reserved2 :: u8
  endOfFrame :: u8

text \<open>
  Modelled from the spec: the serial transport (\<open>uart_write_bytes\<close>,
  \<open>uart_read_bytes\<close>), the scheduler delay \<open>vTaskDelay\<close> and the console
  \<open>Serial.printf\<close> belong to the platform, not to the repository. The specification
  describes them as the collaborator interface \<open>writeBytes(buffer)\<close> and
  \<open>readBytes(destination, maxLength, timeoutMs) -> bytesRead\<close>. They are modelled as
  a scripted environment:
  \<^item> \<open>trace\<close> records, oldest first, every call the driver makes: a write with the
    buffer handed over, a read attempt with the requested maximum and the value
    returned, a delay with its milliseconds, a console line;
  \<^item> \<open>rx_script\<close> says what each coming read attempt finds before its timeout:
    \<open>Arrive bs\<close> the bytes \<open>bs\<close> (possibly none), \<open>Fault\<close> a driver error (the call
    returns \<open>-1\<close>); once the script is used up nothing arrives any more. A read hands
    out at most the requested number of bytes and leaves the others for the next
    attempt;
  \<^item> \<open>tx_fails\<close> says whether \<open>uart_write_bytes\<close> reports an error (\<open>-1\<close>) instead of
    the number of bytes taken.
  The member \<open>report\<close> of class \<open>M16\<close> is part of the same state.
\<close>

datatype rx_step = Arrive "u8 list" | Fault

datatype event =
    UartWrite "u8 list"
  | UartRead nat int
  | TaskDelay nat
  | SerialPrint string

record M16 =
  trace :: "event list"
  rx_script :: "rx_step list"
  tx_fails :: bool
  report :: Report

definition uart_write_bytes :: "M16 \<Rightarrow> u8 list \<Rightarrow> int \<times> M16" where
  "uart_write_bytes s bytes =
     (if tx_fails s then - 1 else int (length bytes),
      s\<lparr> trace := trace s @ [UartWrite bytes] \<rparr>)"

definition uart_read_bytes :: "M16 \<Rightarrow> nat \<Rightarrow> (int \<times> u8 list) \<times> M16" where
  "uart_read_bytes s n =
     (case rx_script s of
        [] \<Rightarrow> ((0, []), s\<lparr> trace := trace s @ [UartRead n 0] \<rparr>)
      | Fault # rest \<Rightarrow>
          ((- 1, []), s\<lparr> trace := trace s @ [UartRead n (- 1)], rx_script := rest \<rparr>)
      | Arrive bs # rest \<Rightarrow>
          ((int (length (take n bs)), take n bs),
           s\<lparr> trace := trace s @ [UartRead n (int (length (take n bs)))],
              rx_script := (if drop n bs = [] then rest else Arrive (drop n bs) # rest) \<rparr>))"

definition vTaskDelay :: "M16 \<Rightarrow> nat \<Rightarrow> M16" where
  "vTaskDelay s ms = s\<lparr> trace := trace s @ [TaskDelay ms] \<rparr>"

definition Serial_printf :: "M16 \<Rightarrow> string \<Rightarrow> M16" where
  "Serial_printf s msg = s\<lparr> trace := trace s @ [SerialPrint msg] \<rparr>"

text \<open>The bytes handed to the transport so far, and the number of read attempts made.\<close>

fun written :: "event \<Rightarrow> u8 list" where
  "written (UartWrite bs) = bs"
| "written _ = []"

definition bytes_sent :: "M16 \<Rightarrow> u8 list" where
  "bytes_sent s = concat (map written (trace s))"

fun is_read :: "event \<Rightarrow> bool" where
  "is_read (UartRead _ _) = True"
| "is_read _ = False"

definition read_attempts :: "M16 \<Rightarrow> nat" where
  "read_attempts s = length (filter is_read (trace s))"

section \<open>\<open>M16-lib.cpp\<close>: the session driver\<close>

text \<open>\<open>M16::sendByte\<close>: one byte is written; the outcome of the write is dropped.\<close>

definition sendByte :: "M16 \<Rightarrow> u8 \<Rightarrow> M16" where
  "sendByte s byte = snd (uart_write_bytes s [byte])"

text \<open>
  \<open>M16::sendPacket(unsigned short packet)\<close>: the two bytes are written with one call,
  its outcome is dropped and the function returns \<open>true\<close>. (The \<open>DEBUG\<close> printing is
  compiled out.)
\<close>

definition sendPacket_word :: "M16 \<Rightarrow> u16 \<Rightarrow> bool \<times> M16" where
  "sendPacket_word s packet =
     (let bytes = [ucast (drop_bit 8 (ucast packet :: c_int) AND 255),
                   ucast ((ucast packet :: c_int) AND 255)]
      in (True, snd (uart_write_bytes s bytes)))"

text \<open>\<open>M16::sendPacket(ProtocolStructure packet)\<close>.\<close>

definition sendPacket_struct :: "M16 \<Rightarrow> ProtocolStructure \<Rightarrow> bool \<times> M16" where
  "sendPacket_struct s packet =
     (let encodedPackage = M16_encode_struct packet
      in sendPacket_word s encodedPackage)"

text \<open>\<open>M16::sendPacket(unsigned char id, Command command, unsigned char data)\<close>.\<close>

definition sendPacket :: "M16 \<Rightarrow> u8 \<Rightarrow> Command \<Rightarrow> u8 \<Rightarrow> bool \<times> M16" where
  "sendPacket s i c d =
     (let encodedPackage = M16_encode i c d
      in sendPacket_word s encodedPackage)"

text \<open>
  \<open>M16::setCommunicationChannel(uint8_t channel)\<close>. The C++ function returns
  \<open>void\<close>, so the model returns the state alone: the range guard prints
  \<open>Wrong channel\<close> on the console and returns, and nothing tells the caller which of
  the two exits was taken. \<open>0x30 + channel\<close> and \<open>0x61 + (channel - 10)\<close> are computed
  in \<open>int\<close> and converted to a byte, which is addition on bytes.
\<close>

definition setCommunicationChannel :: "M16 \<Rightarrow> u8 \<Rightarrow> M16" where
  "setCommunicationChannel s ch =
     (if ch < 1 \<or> ch > 12 then
        Serial_printf s (''Wrong channel'' @ [CHR 0x0A])
      else
        (let s = sendByte s 0x63;
             s = vTaskDelay s 1000;
             s = sendByte s 0x63;
             s = vTaskDelay s 1;
             s = (if ch \<le> 9 then sendByte s (0x30 + ch)
                  else sendByte s (0x61 + (ch - 10)))
         in s))"

text \<open>
  The polling loop of \<open>M16::requestReport\<close>. \<open>reportBytes\<close> holds the bytes stored so
  far, so \<open>bytesRead\<close> is its length and \<open>sizeof(reportBytes)\<close> is 18; a read stores
  what it got behind them. \<open>retries\<close> is a \<open>uint8_t\<close>; \<open>retries++ > 100\<close> compares the
  value before the increment. The loop ends with \<open>None\<close> where the C++ returns
  \<open>false\<close>, and with the 18 bytes where it falls through to the assignments.
\<close>

function readLoop :: "M16 \<Rightarrow> u8 list \<Rightarrow> u8 \<Rightarrow> u8 list option \<times> M16" where
  "readLoop s reportBytes retries =
     (if length reportBytes < 18 then
        (case uart_read_bytes s (18 - length reportBytes) of
           ((result, got), s') \<Rightarrow>
             if result > 0 then readLoop s' (reportBytes @ got) retries
             else if retries > 100 then (None, s')
             else readLoop s' reportBytes (retries + 1))
      else (Some reportBytes, s))"
  by pat_completeness auto

termination readLoop
proof (relation "measure (\<lambda>(s, reportBytes, retries).
         (18 - length reportBytes) + (256 - unat retries))", goal_cases)
  case 1
  show ?case by simp
next
  case (2 s reportBytes retries x s' result got)
  then have "uart_read_bytes s (18 - length reportBytes) = ((result, got), s')"
    by simp
  with \<open>0 < result\<close> have "got \<noteq> []"
    by (auto simp: uart_read_bytes_def split: list.splits rx_step.splits)
  with 2 show ?case by (cases got) auto
next
  case (3 s reportBytes retries x s' result got)
  from \<open>\<not> 100 < retries\<close> have "unat (retries + 1) = Suc (unat retries)"
    by (simp add: unat_word_ariths word_less_nat_alt not_less word_le_nat_alt)
  moreover have "unat retries < 256"
    using unsigned_less [of retries] by simp
  ultimately show ?case using 3 by auto
qed

text \<open>
  \<open>M16::requestReport\<close>: the request byte twice, the polling loop, and, unless the
  loop returned \<open>false\<close>, the assignments to \<open>this->report\<close> in source order. The two
  assignments to \<open>reserved\<close> and \<open>reserved2\<close> are commented out in the source and
  hence absent here.
\<close>

definition assignReport :: "u8 list \<Rightarrow> Report \<Rightarrow> Report" where
  "assignReport reportBytes r =
     r\<lparr> startOfFrame := reportBytes ! 0,
        transportBlock := ucast (push_bit 8 (ucast (reportBytes ! 1) :: c_int) OR ucast (reportBytes ! 2)),
        bitErrorRate := reportBytes ! 3,
        signalPower := reportBytes ! 4,
        noisePower := reportBytes ! 5,
        packetValid := ucast (push_bit 8 (ucast (reportBytes ! 6) :: c_int) OR ucast (reportBytes ! 7)),
        packedInvalid := reportBytes ! 8,
        firmwareVersion := reportBytes ! 9,
        timeSinceBoot := push_bit 16 (ucast (reportBytes ! 10) :: c_int)
                           OR push_bit 8 (ucast (reportBytes ! 11)) OR ucast (reportBytes ! 12),
        chipID := ucast (push_bit 8 (ucast (reportBytes ! 13) :: c_int) OR ucast (reportBytes ! 14)),
        hwRev := ucast ((ucast (reportBytes ! 15) :: c_int) AND 3),
        channel := ucast (drop_bit 2 ((ucast (reportBytes ! 15) :: c_int) AND 60)),
        tbValid := ucast (drop_bit 6 ((ucast (reportBytes ! 15) :: c_int) AND 64)),
        txComplete := ucast (drop_bit 7 ((ucast (reportBytes ! 15) :: c_int) AND 128)),
        diagnostic := ucast ((ucast (reportBytes ! 16) :: c_int) AND 1),
        powerLevel := ucast (drop_bit 2 ((ucast (reportBytes ! 16) :: c_int) AND 12)),
        endOfFrame := reportBytes ! 17 \<rparr>"

definition requestReport :: "M16 \<Rightarrow> bool \<times> M16" where
  "requestReport s =
     (let s = sendByte s 0x72;
          s = vTaskDelay s 1000;
          s = sendByte s 0x72
      in case readLoop s [] 0 of
           (None, s) \<Rightarrow> (False, s)
         | (Some reportBytes, s) \<Rightarrow>
             (True, s\<lparr> report := assignReport reportBytes (report s) \<rparr>))"

text \<open>
  The state right after the two request bytes of \<open>requestReport\<close>, where the polling
  loop starts.
\<close>

definition request_sent :: "M16 \<Rightarrow> M16" where
  "request_sent s =
     s\<lparr> trace := trace s @ [UartWrite [0x72], TaskDelay 1000, UartWrite [0x72]] \<rparr>"

text \<open>A read attempt that finds nothing: no byte before the timeout, or a driver error.\<close>

definition quiet :: "rx_step \<Rightarrow> bool" where
  "quiet st = (st = Arrive [] \<or> st = Fault)"

section \<open>Concrete inputs\<close>

text \<open>
  A freshly constructed driver on a line on which nothing arrives (\<open>Report\<close>'s
  members are zero-initialised in \<open>include/M16-lib.h\<close>).
\<close>

definition idle :: M16 where
  "idle = \<lparr> trace = [], rx_script = [], tx_fails = False,
     report = \<lparr> startOfFrame = 0, transportBlock = 0, bitErrorRate = 0, signalPower = 0,
       noisePower = 0, packetValid = 0, packedInvalid = 0, firmwareVersion = 0,
       timeSinceBoot = 0, chipID = 0, hwRev = 0, channel = 0, tbValid = 0, txComplete = 0,
       diagnostic = 0, reserved = 0, powerLevel = 0, reserved2 = 0, endOfFrame = 0 \<rparr> \<rparr>"

text \<open>The 18 response bytes of the specification's report example.\<close>

definition example_report :: "u8 list" where
  "example_report = [0xAA, 0x01, 0x02, 0x10, 0x20, 0x30, 0x00, 0x05, 0x01, 0x02,
     0x00, 0x01, 0x00, 0x12, 0x34, 0xB5, 0x05, 0x55]"

text \<open>
  A driver holding an earlier report, on a line that delivers five bytes and then
  nothing.
\<close>

definition partial_then_silence :: M16 where
  "partial_then_silence =
     idle\<lparr> rx_script := [Arrive [0xAA, 0x01, 0x02, 0x10, 0x20]],
           report := (report idle)\<lparr> chipID := 0x1234, channel := 7 \<rparr> \<rparr>"

text \<open>
  A driver whose stored report has non-zero \<open>reserved\<close> fields, on a line that
  delivers the example report in one read.
\<close>

definition stale :: M16 where
  "stale = idle\<lparr> rx_script := [Arrive example_report],
                 report := (report idle)\<lparr> reserved := 0xEE, reserved2 := 0xDD \<rparr> \<rparr>"

declare readLoop.simps [simp del]

section \<open>Bit masks\<close>

text \<open>
  The sources write their masks as binary literals; \<open>x & (2 ^ n - 1)\<close> keeps the
  low \<open>n\<close> bits of \<open>x\<close>.
\<close>

lemma and_7: "(7 :: 'a::len word) AND x = take_bit 3 x"
  using take_bit_eq_mask [of 3 x] by (simp add: mask_numeral ac_simps)

lemma and_7': "x AND (7 :: 'a::len word) = take_bit 3 x"
  using take_bit_eq_mask [of 3 x] by (simp add: mask_numeral ac_simps)

lemma and_15: "(15 :: 'a::len word) AND x = take_bit 4 x"
  using take_bit_eq_mask [of 4 x] by (simp add: mask_numeral ac_simps)

lemma and_15': "x AND (15 :: 'a::len word) = take_bit 4 x"
  using take_bit_eq_mask [of 4 x] by (simp add: mask_numeral ac_simps)

lemma and_255: "(255 :: 'a::len word) AND x = take_bit 8 x"
  using take_bit_eq_mask [of 8 x] by (simp add: mask_numeral ac_simps)

lemma and_255': "x AND (255 :: 'a::len word) = take_bit 8 x"
  using take_bit_eq_mask [of 8 x] by (simp add: mask_numeral ac_simps)

lemma and_1023: "(1023 :: 'a::len word) AND x = take_bit 10 x"
  using take_bit_eq_mask [of 10 x] by (simp add: mask_numeral ac_simps)

lemma and_1023': "x AND (1023 :: 'a::len word) = take_bit 10 x"
  using take_bit_eq_mask [of 10 x] by (simp add: mask_numeral ac_simps)

lemmas and_masks = and_7 and_7' and_15 and_15' and_255 and_255' and_1023 and_1023'

lemma take_bit_fits: "(x :: 'a::len word) < 2 ^ n \<Longrightarrow> take_bit n x = x"
  using less_mask_eq [of x n] by (simp add: take_bit_eq_mask)

section \<open>The codecs\<close>

text \<open>
  Decoding an encoded triple gives back each field cut to its width, whatever the
  arguments were.
\<close>

lemma coder_decoder_decode_encode:
  "coder_decoder_decode (coder_decoder_encode i c d) =
     \<lparr> id_field = take_bit 3 i, command = take_bit 3 c, data = take_bit 10 d \<rparr>"
  unfolding coder_decoder_encode_def coder_decoder_decode_def or_assign_def Let_def and_masks
  by (simp, intro conjI bit_word_eqI) (auto simp add: bit_simps dest: bit_imp_le_length)

lemma M16_decode_encode:
  "M16_decode (M16_encode i c d) =
     \<lparr> id_field = take_bit 4 i, command = take_bit 4 c, data = ucast d \<rparr>"
  unfolding M16_encode_def M16_decode_def or_assign_def Let_def and_masks
  by (simp, intro conjI bit_word_eqI) (auto simp add: bit_simps dest: bit_imp_le_length)

lemma coder_decoder_Commands_fit: "c \<in> set coder_decoder_Commands \<Longrightarrow> c < 2 ^ 3"
  by (auto simp: coder_decoder_Commands_def SEND_def TEST_def)

lemma M16_Commands_fit: "c \<in> set M16_Commands \<Longrightarrow> c < 2 ^ 4"
  by (auto simp: M16_Commands_def HI_def REQUEST_DATA_def FINISHED_def TEMP_SENSOR_def
      PRESSURE_SENSOR_def CONDUCTIVITY_SENSOR_def PH_SENSOR_def SENSOR_DATA_RECEIVED_def)

text \<open>
  Claim C1 (round trip). For every \<open>id\<close> below \<open>2 ^ idBits\<close>, every \<open>data\<close> below
  \<open>2 ^ dataBits\<close> and every enumerator of \<open>Command\<close>, decoding the encoded word gives
  back the triple: for the 3-3-10 layout of \<open>coder_decoder::encode\<close>/\<open>decode\<close> and for
  the 4-4-8 layout of \<open>M16::encode\<close>/\<open>M16::decode\<close>. The data of the 4-4-8 layout is
  taken as a 16-bit value below 256 and handed to the byte parameter of
  \<open>M16::encode\<close>, which covers every byte.
\<close>

theorem round_trip:
  "(i < 2 ^ 3 \<and> c \<in> set coder_decoder_Commands \<and> d < 2 ^ 10 \<longrightarrow>
      coder_decoder_decode (coder_decoder_encode i c d) =
        \<lparr> id_field = i, command = c, data = d \<rparr>) \<and>
   (j < 2 ^ 4 \<and> k \<in> set M16_Commands \<and> e < 2 ^ 8 \<longrightarrow>
      M16_decode (M16_encode j k (ucast e)) =
        \<lparr> id_field = j, command = k, data = e \<rparr>)"
proof (intro conjI impI)
  assume "i < 2 ^ 3 \<and> c \<in> set coder_decoder_Commands \<and> d < 2 ^ 10"
  then show "coder_decoder_decode (coder_decoder_encode i c d) =
      \<lparr> id_field = i, command = c, data = d \<rparr>"
    using take_bit_fits [of i 3] take_bit_fits [of c 3] take_bit_fits [of d 10]
      coder_decoder_Commands_fit [of c]
    by (simp add: coder_decoder_decode_encode)
next
  assume a: "j < 2 ^ 4 \<and> k \<in> set M16_Commands \<and> e < 2 ^ 8"
  then have "take_bit 8 e = e" by (simp add: take_bit_fits)
  then have "(ucast (ucast e :: u8) :: u16) = e"
    by (simp add: unsigned_ucast_eq)
  with a show "M16_decode (M16_encode j k (ucast e)) =
      \<lparr> id_field = j, command = k, data = e \<rparr>"
    using take_bit_fits [of j 4] take_bit_fits [of k 4] M16_Commands_fit [of k]
    by (simp add: M16_decode_encode)
qed

theorem round_trip_witness:
  "(5 :: u8) < 2 ^ 3 \<and> TEST \<in> set coder_decoder_Commands \<and> (341 :: u16) < 2 ^ 10 \<and>
   coder_decoder_decode (coder_decoder_encode 5 TEST 341) =
     \<lparr> id_field = 5, command = TEST, data = 341 \<rparr> \<and>
   (9 :: u8) < 2 ^ 4 \<and> PH_SENSOR \<in> set M16_Commands \<and> (0xAB :: u16) < 2 ^ 8 \<and>
   M16_decode (M16_encode 9 PH_SENSOR (ucast (0xAB :: u16))) =
     \<lparr> id_field = 9, command = PH_SENSOR, data = 0xAB \<rparr>"
  using round_trip [of 5 TEST 341 9 PH_SENSOR "0xAB"]
  by (simp add: coder_decoder_Commands_def M16_Commands_def)

text \<open>
  Claim C10 (the codec is a bijection on words). For every 16-bit word \<open>w\<close>,
  encoding the decoded frame gives \<open>w\<close> back, for the 3-3-10 codec and for the 4-4-8
  codec: the three fields tile the 16 bits. This includes the words whose command
  bits are no enumerator.
\<close>

theorem encode_decode_identity:
  "coder_decoder_encode_struct (coder_decoder_decode w) = w \<and>
   M16_encode_struct (M16_decode w) = w"
  unfolding coder_decoder_encode_struct_def coder_decoder_encode_def coder_decoder_decode_def
    M16_encode_struct_def M16_encode_def M16_decode_def or_assign_def Let_def and_masks
  by (simp, intro conjI bit_word_eqI) (auto simp add: bit_simps dest: bit_imp_le_length)

text \<open>
  Claim C6 (the two decoders of \<open>M16\<close> agree). For every buffer of two bytes,
  \<open>M16::decode(uint8_t *)\<close> returns the \<open>ProtocolStructure\<close> that
  \<open>M16::decode(unsigned short)\<close> returns on \<open>(b[0] << 8) | b[1]\<close>.
\<close>

theorem decode_bytes_eq_decode_word:
  "M16_decode_bytes [b0, b1] =
     M16_decode (ucast (push_bit 8 (ucast b0 :: c_int) OR ucast b1))"
  unfolding M16_decode_bytes_def M16_decode_def Let_def and_masks
  by (simp, intro conjI bit_word_eqI) (auto simp add: bit_simps dest: bit_imp_le_length)

text \<open>
  Truncation. \<open>coder_decoder::encode\<close> and \<open>M16::encode\<close> cut every field to its
  width. The older \<open>coder_decoder::code\<close> cuts \<open>data\<close> by its mask and \<open>id\<close> by the
  conversion to 16 bits, but not \<open>command\<close>. On the arguments \<open>0xFF\<close>, \<open>0xFF\<close>,
  \<open>0xFFFF\<close> all of them return \<open>0xFFFF\<close>.
\<close>

lemma coder_decoder_encode_masks:
  "coder_decoder_encode i c d = coder_decoder_encode (i AND 7) (c AND 7) (d AND 1023)"
  unfolding coder_decoder_encode_def or_assign_def Let_def and_masks
  by (rule bit_word_eqI) (auto simp add: bit_simps dest: bit_imp_le_length)

lemma M16_encode_masks:
  "M16_encode i c d = M16_encode (i AND 15) (c AND 15) (d AND 255)"
  unfolding M16_encode_def or_assign_def Let_def and_masks
  by (rule bit_word_eqI) (auto simp add: bit_simps dest: bit_imp_le_length)

lemma coder_decoder_code_masks_id_and_data:
  "coder_decoder_code i c d = coder_decoder_code (i AND 7) c (d AND 1023)"
  unfolding coder_decoder_code_def or_assign_def Let_def and_masks
  by (rule bit_word_eqI) (auto simp add: bit_simps dest: bit_imp_le_length)

lemma truncation_example:
  "coder_decoder_encode 0xFF 0xFF 0xFFFF = 0xFFFF \<and>
   coder_decoder_encode (0xFF AND 7) (0xFF AND 7) (0xFFFF AND 1023) = 0xFFFF \<and>
   coder_decoder_code 0xFF 0xFF 0xFFFF = 0xFFFF \<and>
   coder_decoder_code (0xFF AND 7) (0xFF AND 7) (0xFFFF AND 1023) = 0xFFFF"
  by (simp add: coder_decoder_encode_def coder_decoder_code_def or_assign_def)

text \<open>
  Claim C2 (every encoder of the 3-3-10 layout masks each field). The claim fails
  for \<open>coder_decoder::code\<close>, whose comment says of \<open>command\<close> that only the first
  three bits are kept: on \<open>id = 0\<close>, \<open>command = 8\<close>, \<open>data = 0\<close> bit 3 of the command
  lands in the id field and the word is \<open>0x2000\<close>, while on the masked arguments it
  is \<open>0\<close>, as it is for \<open>coder_decoder::encode\<close> on both.
\<close>

theorem code_command_not_masked:
  "coder_decoder_code 0 8 0 = 0x2000 \<and>
   coder_decoder_code (0 AND 7) (8 AND 7) (0 AND 1023) = 0 \<and>
   coder_decoder_encode 0 8 0 = 0"
  by (simp add: coder_decoder_encode_def coder_decoder_code_def or_assign_def)

section \<open>The session driver\<close>

lemma sendByte_trace: "sendByte s b = s\<lparr> trace := trace s @ [UartWrite [b]] \<rparr>"
  by (simp add: sendByte_def uart_write_bytes_def)

text \<open>
  The word of \<open>M16::encode\<close> in terms of its arguments: the low four bits of \<open>id\<close> in
  bits 12..15, the low four bits of \<open>command\<close> in bits 8..11, \<open>data\<close> in bits 0..7.
  Hence its high byte is the two nibbles and its low byte is \<open>data\<close>.
\<close>

lemma M16_encode_layout:
  "M16_encode i c d =
     push_bit 12 (ucast (take_bit 4 i)) OR push_bit 8 (ucast (take_bit 4 c)) OR ucast d"
  unfolding M16_encode_def or_assign_def Let_def and_masks
  by (rule bit_word_eqI) (auto simp add: bit_simps dest: bit_imp_le_length)

lemma M16_encode_high_byte:
  "(ucast (drop_bit 8 (ucast (M16_encode i c d) :: c_int) AND 255) :: u8) =
     push_bit 4 (take_bit 4 i) OR take_bit 4 c"
  unfolding M16_encode_def or_assign_def Let_def and_masks
  by (rule bit_word_eqI) (auto simp add: bit_simps dest: bit_imp_le_length)

lemma M16_encode_low_byte:
  "(ucast ((ucast (M16_encode i c d) :: c_int) AND 255) :: u8) = d"
  unfolding M16_encode_def or_assign_def Let_def and_masks
  by (rule bit_word_eqI) (auto simp add: bit_simps dest: bit_imp_le_length)

text \<open>
  Claim C8 (\<open>sendPacket\<close>). For every frame \<open>(id, command, data)\<close>, \<open>sendPacket\<close>
  packs it in the 4-4-8 layout (\<open>id\<close>'s low four bits in bits 12..15 of the word,
  \<open>command\<close>'s low four bits in bits 8..11, \<open>data\<close> in bits 0..7) and hands exactly
  two bytes to the transport in one write: first the most significant byte of that
  word, which is the \<open>id\<close> nibble above the \<open>command\<close> nibble, then the least
  significant byte, which is \<open>data\<close>. Both public overloads do so (the frame given
  as a \<open>ProtocolStructure\<close> has its \<open>data\<close> cut to a byte) and return \<open>true\<close>, in
  every state, in particular when the write reports an error (\<open>-1\<close>).
\<close>

theorem sendPacket_two_bytes:
  "sendPacket s i c d =
     (True, s\<lparr> trace := trace s @
        [UartWrite [push_bit 4 (take_bit 4 i) OR take_bit 4 c, d]] \<rparr>) \<and>
   sendPacket_struct s p =
     (True, s\<lparr> trace := trace s @
        [UartWrite [push_bit 4 (take_bit 4 (id_field p)) OR take_bit 4 (command p),
                    ucast (data p)]] \<rparr>) \<and>
   M16_encode i c d =
     push_bit 12 (ucast (take_bit 4 i)) OR push_bit 8 (ucast (take_bit 4 c)) OR ucast d \<and>
   [push_bit 4 (take_bit 4 i) OR take_bit 4 c, d] =
     [ucast (drop_bit 8 (M16_encode i c d)), ucast (M16_encode i c d)] \<and>
   fst (sendPacket (s\<lparr> tx_fails := True \<rparr>) i c d) = True \<and>
   fst (sendPacket_struct (s\<lparr> tx_fails := True \<rparr>) p) = True \<and>
   fst (uart_write_bytes (s\<lparr> tx_fails := True \<rparr>) bs) = - 1"
proof -
  have packet: "sendPacket_word s (M16_encode j k e) =
      (True, s\<lparr> trace := trace s @
         [UartWrite [push_bit 4 (take_bit 4 j) OR take_bit 4 k, e]] \<rparr>)" for s j k e
    by (simp add: sendPacket_word_def uart_write_bytes_def Let_def
        M16_encode_high_byte M16_encode_low_byte)
  have halves: "[push_bit 4 (take_bit 4 i) OR take_bit 4 c, d] =
      [ucast (drop_bit 8 (M16_encode i c d)), ucast (M16_encode i c d)]"
    unfolding M16_encode_layout
    by (simp, intro conjI bit_word_eqI) (auto simp add: bit_simps dest: bit_imp_le_length)
  have "sendPacket s i c d =
      (True, s\<lparr> trace := trace s @
         [UartWrite [push_bit 4 (take_bit 4 i) OR take_bit 4 c, d]] \<rparr>)" for s
    by (simp add: sendPacket_def Let_def packet)
  moreover have "sendPacket_struct s p =
      (True, s\<lparr> trace := trace s @
         [UartWrite [push_bit 4 (take_bit 4 (id_field p)) OR take_bit 4 (command p),
                     ucast (data p)]] \<rparr>)" for s
    by (simp add: sendPacket_struct_def M16_encode_struct_def Let_def packet)
  moreover have "fst (uart_write_bytes (s\<lparr> tx_fails := True \<rparr>) bs) = - 1"
    by (simp add: uart_write_bytes_def)
  ultimately show ?thesis
    using halves M16_encode_layout [of i c d] by simp
qed

text \<open>
  Claim C3 (\<open>setCommunicationChannel\<close>). As stated the claim fails: a channel
  outside 1..12 does not make the call fail with an error. The function is \<open>void\<close>;
  for channel 0 and for channel 13 its whole effect is the console line
  \<open>Wrong channel\<close>: nothing is returned, nothing is sent, and the driver's members
  are as before, so the caller has nothing to tell the rejected call by.
\<close>

theorem setCommunicationChannel_rejects_silently:
  "setCommunicationChannel idle 0 =
     idle\<lparr> trace := [SerialPrint (''Wrong channel'' @ [CHR 0x0A])] \<rparr> \<and>
   setCommunicationChannel idle 13 =
     idle\<lparr> trace := [SerialPrint (''Wrong channel'' @ [CHR 0x0A])] \<rparr> \<and>
   report (setCommunicationChannel idle 0) = report idle \<and>
   report (setCommunicationChannel idle 13) = report idle \<and>
   bytes_sent (setCommunicationChannel idle 0) = [] \<and>
   bytes_sent (setCommunicationChannel idle 13) = []"
  by (simp add: setCommunicationChannel_def Serial_printf_def bytes_sent_def idle_def)

text \<open>
  Claim C3 as amended. A channel outside 1..12 sends no byte to the transport and
  reports nothing to the caller: the call only prints \<open>Wrong channel\<close> on the console
  and leaves everything else as it was. A channel in 1..12 sends exactly three
  bytes, \<open>0x63\<close>, a delay of 1000 ms, \<open>0x63\<close>, a delay of 1 ms, and then
  \<open>'0' + channel\<close> for 1..9 or \<open>'a' + (channel - 10)\<close> for 10..12. The witness gives
  the four boundary cases: 0 and 13 send nothing, 1 ends in \<open>0x31\<close> (\<open>'1'\<close>) and 12
  in \<open>0x63\<close> (\<open>'c'\<close>).
\<close>

theorem setCommunicationChannel_range:
  "(ch < 1 \<or> 12 < ch \<longrightarrow>
      setCommunicationChannel s ch =
        s\<lparr> trace := trace s @ [SerialPrint (''Wrong channel'' @ [CHR 0x0A])] \<rparr> \<and>
      bytes_sent (setCommunicationChannel s ch) = bytes_sent s) \<and>
   (1 \<le> ch \<and> ch \<le> 9 \<longrightarrow>
      setCommunicationChannel s ch =
        s\<lparr> trace := trace s @ [UartWrite [0x63], TaskDelay 1000, UartWrite [0x63],
               TaskDelay 1, UartWrite [0x30 + ch]] \<rparr> \<and>
      bytes_sent (setCommunicationChannel s ch) =
        bytes_sent s @ [0x63, 0x63, 0x30 + ch]) \<and>
   (10 \<le> ch \<and> ch \<le> 12 \<longrightarrow>
      setCommunicationChannel s ch =
        s\<lparr> trace := trace s @ [UartWrite [0x63], TaskDelay 1000, UartWrite [0x63],
               TaskDelay 1, UartWrite [0x61 + (ch - 10)]] \<rparr> \<and>
      bytes_sent (setCommunicationChannel s ch) =
        bytes_sent s @ [0x63, 0x63, 0x61 + (ch - 10)])"
proof (intro conjI impI)
  assume "ch < 1 \<or> 12 < ch"
  then show "setCommunicationChannel s ch =
      s\<lparr> trace := trace s @ [SerialPrint (''Wrong channel'' @ [CHR 0x0A])] \<rparr>"
    and "bytes_sent (setCommunicationChannel s ch) = bytes_sent s"
    by (auto simp add: setCommunicationChannel_def Serial_printf_def bytes_sent_def)
next
  assume a: "1 \<le> ch \<and> ch \<le> 9"
  then have "\<not> (ch < 1 \<or> 12 < ch)"
    by (auto simp: word_le_nat_alt word_less_nat_alt)
  with a show "setCommunicationChannel s ch =
      s\<lparr> trace := trace s @ [UartWrite [0x63], TaskDelay 1000, UartWrite [0x63],
             TaskDelay 1, UartWrite [0x30 + ch]] \<rparr>"
    and "bytes_sent (setCommunicationChannel s ch) =
      bytes_sent s @ [0x63, 0x63, 0x30 + ch]"
    by (simp_all add: setCommunicationChannel_def Let_def sendByte_trace vTaskDelay_def
        bytes_sent_def)
next
  assume a: "10 \<le> ch \<and> ch \<le> 12"
  then have "\<not> (ch < 1 \<or> 12 < ch)" "\<not> ch \<le> 9"
    by (auto simp: word_le_nat_alt word_less_nat_alt)
  with a show "setCommunicationChannel s ch =
      s\<lparr> trace := trace s @ [UartWrite [0x63], TaskDelay 1000, UartWrite [0x63],
             TaskDelay 1, UartWrite [0x61 + (ch - 10)]] \<rparr>"
    and "bytes_sent (setCommunicationChannel s ch) =
      bytes_sent s @ [0x63, 0x63, 0x61 + (ch - 10)]"
    by (simp_all add: setCommunicationChannel_def Let_def sendByte_trace vTaskDelay_def
        bytes_sent_def)
qed

theorem setCommunicationChannel_range_witness:
  "bytes_sent (setCommunicationChannel idle 0) = [] \<and>
   trace (setCommunicationChannel idle 0) = [SerialPrint (''Wrong channel'' @ [CHR 0x0A])] \<and>
   bytes_sent (setCommunicationChannel idle 13) = [] \<and>
   trace (setCommunicationChannel idle 13) = [SerialPrint (''Wrong channel'' @ [CHR 0x0A])] \<and>
   bytes_sent (setCommunicationChannel idle 1) = [0x63, 0x63, 0x31] \<and>
   trace (setCommunicationChannel idle 1) =
     [UartWrite [0x63], TaskDelay 1000, UartWrite [0x63], TaskDelay 1, UartWrite [0x31]] \<and>
   bytes_sent (setCommunicationChannel idle 12) = [0x63, 0x63, 0x63] \<and>
   trace (setCommunicationChannel idle 12) =
     [UartWrite [0x63], TaskDelay 1000, UartWrite [0x63], TaskDelay 1, UartWrite [0x63]]"
  using setCommunicationChannel_range [of 0 idle] setCommunicationChannel_range [of 13 idle]
    setCommunicationChannel_range [of 1 idle] setCommunicationChannel_range [of 12 idle]
  by (simp add: bytes_sent_def idle_def)

section \<open>The report request\<close>

subsection \<open>The polling loop and the stored report\<close>

lemma report_uart_read_bytes: "report (snd (uart_read_bytes s n)) = report s"
  by (simp add: uart_read_bytes_def split: list.splits rx_step.splits)

lemma report_readLoop: "report (snd (readLoop s reportBytes retries)) = report s"
proof (induction s reportBytes retries rule: readLoop.induct)
  case (1 s reportBytes retries)
  obtain result got s'
    where u: "uart_read_bytes s (18 - length reportBytes) = ((result, got), s')"
    by (metis prod.exhaust)
  then have s': "report s' = report s"
    using report_uart_read_bytes [of s "18 - length reportBytes"] by simp
  show ?case
  proof (cases "length reportBytes < 18")
    case False
    then show ?thesis by (subst readLoop.simps) simp
  next
    case True
    with 1 [OF True u [symmetric] refl] u s' show ?thesis
      by (subst readLoop.simps) simp
  qed
qed

lemma uart_read_bytes_report_update:
  "uart_read_bytes (s\<lparr> report := r \<rparr>) n =
     (fst (uart_read_bytes s n), (snd (uart_read_bytes s n))\<lparr> report := r \<rparr>)"
  by (simp add: uart_read_bytes_def split: list.splits rx_step.splits)

lemma readLoop_report_update:
  "readLoop (s\<lparr> report := r \<rparr>) reportBytes retries =
     (fst (readLoop s reportBytes retries),
      (snd (readLoop s reportBytes retries))\<lparr> report := r \<rparr>)"
proof (induction s reportBytes retries rule: readLoop.induct)
  case (1 s reportBytes retries)
  obtain result got s'
    where u: "uart_read_bytes s (18 - length reportBytes) = ((result, got), s')"
    by (metis prod.exhaust)
  then have u': "uart_read_bytes (s\<lparr> report := r \<rparr>) (18 - length reportBytes) =
      ((result, got), s'\<lparr> report := r \<rparr>)"
    by (simp add: uart_read_bytes_report_update)
  show ?case
  proof (cases "length reportBytes < 18")
    case False
    then show ?thesis by (subst (1 2 3) readLoop.simps) simp
  next
    case True
    with 1 [OF True u [symmetric] refl] u u' show ?thesis
      by (subst (1 2 3) readLoop.simps) simp
  qed
qed

lemma requestReport_unfold:
  "requestReport s =
     (case readLoop (request_sent s) [] 0 of
        (None, s') \<Rightarrow> (False, s')
      | (Some reportBytes, s') \<Rightarrow>
          (True, s'\<lparr> report := assignReport reportBytes (report s) \<rparr>))"
proof -
  have "report (snd (readLoop (request_sent s) [] 0)) = report s"
    by (simp add: report_readLoop request_sent_def)
  then show ?thesis
    by (auto simp add: requestReport_def Let_def sendByte_trace vTaskDelay_def
        request_sent_def split: prod.splits option.splits)
qed

subsection \<open>Reads that deliver bytes\<close>

lemma readLoop_done:
  "18 \<le> length reportBytes \<Longrightarrow> readLoop s reportBytes retries = (Some reportBytes, s)"
  by (subst readLoop.simps) simp

lemma readLoop_length:
  "readLoop s reportBytes retries = (Some bs, s') \<Longrightarrow> length reportBytes \<le> 18 \<Longrightarrow>
   length bs = 18"
proof (induction s reportBytes retries rule: readLoop.induct)
  case (1 s reportBytes retries)
  obtain result got s1
    where u: "uart_read_bytes s (18 - length reportBytes) = ((result, got), s1)"
    by (metis prod.exhaust)
  then have l: "length got \<le> 18 - length reportBytes"
    by (auto simp: uart_read_bytes_def split: list.splits rx_step.splits)
  show ?case
  proof (cases "length reportBytes < 18")
    case False
    with "1.prems" show ?thesis by (subst (asm) readLoop.simps) auto
  next
    case True
    from "1.prems"(1) have "readLoop s reportBytes retries = (Some bs, s')" .
    then show ?thesis
      using True u l 1(1) [OF True u [symmetric] refl] 1(2) [OF True u [symmetric] refl]
      by (subst (asm) readLoop.simps) (auto split: if_splits)
  qed
qed

lemma readLoop_arrive:
  assumes "rx_script s = Arrive bs # rest" and "bs \<noteq> []"
    and "length reportBytes < 18" and "length bs \<le> 18 - length reportBytes"
  shows "readLoop s reportBytes retries =
     readLoop (s\<lparr> trace := trace s @ [UartRead (18 - length reportBytes) (int (length bs))],
                  rx_script := rest \<rparr>) (reportBytes @ bs) retries"
  using assms by (subst readLoop.simps) (simp add: uart_read_bytes_def)

lemma requestReport_one_read:
  assumes "rx_script s = Arrive bs # rest" and "length bs = 18"
  shows "requestReport s =
     (True, s\<lparr> trace := trace s @
                 [UartWrite [0x72], TaskDelay 1000, UartWrite [0x72], UartRead 18 18],
               rx_script := rest, report := assignReport bs (report s) \<rparr>)"
proof -
  from assms have "bs \<noteq> []" by auto
  with assms have "readLoop (request_sent s) [] 0 =
      (Some bs, (request_sent s)\<lparr> trace := trace (request_sent s) @ [UartRead 18 18],
                                  rx_script := rest \<rparr>)"
    using readLoop_arrive [of "request_sent s" bs rest "[]" 0]
    by (simp add: request_sent_def readLoop_done)
  then show ?thesis
    by (simp add: requestReport_unfold request_sent_def)
qed

subsection \<open>Reads that deliver nothing\<close>

lemma uart_read_bytes_quiet:
  assumes "list_all quiet (rx_script s)"
  shows "fst (fst (uart_read_bytes s n)) \<le> 0"
    and "list_all quiet (rx_script (snd (uart_read_bytes s n)))"
    and "read_attempts (snd (uart_read_bytes s n)) = Suc (read_attempts s)"
  using assms
  by (auto simp: uart_read_bytes_def quiet_def read_attempts_def
      split: list.splits rx_step.splits)

text \<open>
  On a line on which nothing arrives, the loop entered with \<open>retries = 101 - k\<close>
  gives up after exactly \<open>k + 1\<close> further read attempts.
\<close>

lemma readLoop_quiet:
  "list_all quiet (rx_script s) \<Longrightarrow> length reportBytes < 18 \<Longrightarrow> unat retries + k = 101 \<Longrightarrow>
   fst (readLoop s reportBytes retries) = None \<and>
   read_attempts (snd (readLoop s reportBytes retries)) = read_attempts s + Suc k"
proof (induction k arbitrary: s retries)
  case 0
  then have r: "retries > 100"
    by (simp add: word_less_nat_alt)
  obtain result got s'
    where u: "uart_read_bytes s (18 - length reportBytes) = ((result, got), s')"
    by (metis prod.exhaust)
  with uart_read_bytes_quiet [OF "0.prems"(1), of "18 - length reportBytes"]
  have "result \<le> 0" "read_attempts s' = Suc (read_attempts s)" by simp_all
  with 0 r u show ?case
    by (subst (1 2) readLoop.simps) simp
next
  case (Suc k)
  then have r: "\<not> retries > 100" and r': "unat (retries + 1) + k = 101"
    by (simp_all add: word_less_nat_alt unat_word_ariths)
  obtain result got s'
    where u: "uart_read_bytes s (18 - length reportBytes) = ((result, got), s')"
    by (metis prod.exhaust)
  with uart_read_bytes_quiet [OF Suc.prems(1), of "18 - length reportBytes"]
  have *: "result \<le> 0" "read_attempts s' = Suc (read_attempts s)"
    "list_all quiet (rx_script s')" by simp_all
  from Suc.IH [OF *(3) Suc.prems(2) r'] * r u Suc.prems(2) show ?case
    by (subst (1 2) readLoop.simps) simp
qed

lemma requestReport_quiet:
  assumes "list_all quiet (rx_script s)"
  shows "fst (requestReport s) = False"
    and "read_attempts (snd (requestReport s)) = read_attempts s + 102"
    and "report (snd (requestReport s)) = report s"
proof -
  have q: "list_all quiet (rx_script (request_sent s))"
    and a: "read_attempts (request_sent s) = read_attempts s"
    using assms by (simp_all add: request_sent_def read_attempts_def)
  from readLoop_quiet [OF q, of "[]" 0 101] a
  have "fst (readLoop (request_sent s) [] 0) = None"
    "read_attempts (snd (readLoop (request_sent s) [] 0)) = read_attempts s + 102"
    by simp_all
  moreover have "report (snd (readLoop (request_sent s) [] 0)) = report s"
    by (simp add: report_readLoop request_sent_def)
  ultimately show "fst (requestReport s) = False"
    and "read_attempts (snd (requestReport s)) = read_attempts s + 102"
    and "report (snd (requestReport s)) = report s"
    by (auto simp add: requestReport_unfold read_attempts_def
        split: prod.splits option.splits)
qed

text \<open>
  Claim C4 (retry exhaustion). On a line whose every read attempt yields zero
  bytes, \<open>requestReport\<close> returns \<open>false\<close> (the timeout) and the stored report is
  untouched, as the claim says; but it does so after 102 read attempts, not after
  100: \<open>retries++ > 100\<close> compares the value before the increment, so the test first
  succeeds on the attempt that finds \<open>retries = 101\<close>. The line below yields zero
  bytes \<open>n\<close> times and then never anything.
\<close>

theorem requestReport_silent_transport:
  "fst (requestReport \<lparr> trace = [], rx_script = replicate n (Arrive []),
       tx_fails = f, report = r \<rparr>) = False \<and>
   read_attempts (snd (requestReport \<lparr> trace = [], rx_script = replicate n (Arrive []),
       tx_fails = f, report = r \<rparr>)) = 102 \<and>
   report (snd (requestReport \<lparr> trace = [], rx_script = replicate n (Arrive []),
       tx_fails = f, report = r \<rparr>)) = r"
proof -
  let ?s = "\<lparr> trace = [], rx_script = replicate n (Arrive []), tx_fails = f, report = r \<rparr>"
  have q: "list_all quiet (rx_script ?s)"
    by (simp add: list_all_iff quiet_def)
  from requestReport_quiet [OF q] show ?thesis
    by (simp add: read_attempts_def)
qed

text \<open>
  Claim C5 (no partial report). Whenever \<open>requestReport\<close> returns \<open>false\<close> (the
  timeout: the retry bound was passed before 18 bytes were collected), the stored
  report is exactly the report from before the call, field by field.
\<close>

theorem requestReport_timeout_keeps_report:
  assumes "\<not> fst (requestReport s)"
  shows "report (snd (requestReport s)) = report s"
proof -
  obtain res s' where l: "readLoop (request_sent s) [] 0 = (res, s')"
    by (metis prod.exhaust)
  with assms have "res = None"
    by (cases res) (simp_all add: requestReport_unfold)
  with l have "requestReport s = (False, s')"
    by (simp add: requestReport_unfold)
  moreover have "report s' = report s"
    using report_readLoop [of "request_sent s" "[]" 0] l by (simp add: request_sent_def)
  ultimately show ?thesis by simp
qed

lemma partial_then_silence_fails: "\<not> fst (requestReport partial_then_silence)"
proof -
  let ?s = "request_sent partial_then_silence"
  let ?bs = "[0xAA, 0x01, 0x02, 0x10, 0x20] :: u8 list"
  let ?s' = "?s\<lparr> trace := trace ?s @ [UartRead 18 5], rx_script := [] \<rparr>"
  have "readLoop ?s [] 0 = readLoop ?s' ?bs 0"
    using readLoop_arrive [of ?s ?bs "[]" "[]" 0]
    by (simp add: request_sent_def partial_then_silence_def)
  moreover have "fst (readLoop ?s' ?bs 0) = None"
    using readLoop_quiet [of ?s' ?bs 0 101] by simp
  ultimately show ?thesis
    by (auto simp add: requestReport_unfold split: prod.splits option.splits)
qed

theorem requestReport_timeout_keeps_report_witness:
  "\<not> fst (requestReport partial_then_silence) \<and>
   report (snd (requestReport partial_then_silence)) = report partial_then_silence \<and>
   chipID (report (snd (requestReport partial_then_silence))) = 0x1234 \<and>
   startOfFrame (report (snd (requestReport partial_then_silence))) = 0"
  using requestReport_timeout_keeps_report [of partial_then_silence]
    partial_then_silence_fails
  by (simp add: partial_then_silence_def idle_def)

text \<open>
  Claim C7 (report assembly). On a line that delivers the 18 example bytes in one
  read, \<open>requestReport\<close> returns \<open>true\<close> and the stored report has
  \<open>startOfFrame = 0xAA\<close>, \<open>transportBlock = 0x0102\<close>, \<open>chipID = 0x1234\<close>, \<open>hwRev = 1\<close>,
  \<open>channel = 13\<close>, \<open>tbValid = 0\<close>, \<open>txComplete = 1\<close> and \<open>powerLevel = 1\<close>; the other
  assigned fields are listed as well. This holds whatever the driver did before,
  whatever report it held and whatever arrives later.
\<close>

theorem requestReport_example:
  "fst (requestReport \<lparr> trace = tr, rx_script = Arrive example_report # rest,
       tx_fails = f, report = r \<rparr>) = True \<and>
   report (snd (requestReport \<lparr> trace = tr, rx_script = Arrive example_report # rest,
       tx_fails = f, report = r \<rparr>)) =
     r\<lparr> startOfFrame := 0xAA, transportBlock := 0x0102, bitErrorRate := 0x10,
        signalPower := 0x20, noisePower := 0x30, packetValid := 5, packedInvalid := 1,
        firmwareVersion := 2, timeSinceBoot := 0x000100, chipID := 0x1234, hwRev := 1,
        channel := 13, tbValid := 0, txComplete := 1, diagnostic := 1, powerLevel := 1,
        endOfFrame := 0x55 \<rparr>"
  using requestReport_one_read [of "\<lparr> trace = tr, rx_script = Arrive example_report # rest,
       tx_fails = f, report = r \<rparr>" example_report rest]
  by (simp add: example_report_def assignReport_def)

text \<open>
  Claim C9 (the report is created fresh). As stated the claim fails: the fields
  \<open>reserved\<close> and \<open>reserved2\<close> are not assigned (their assignments are commented out
  in \<open>requestReport\<close>) and keep the values they had before the call. After a
  successful request on a driver that held \<open>reserved = 0xEE\<close> and
  \<open>reserved2 = 0xDD\<close> both values are still there, while the same response read by a
  driver that held zeros leaves zeros.
\<close>

theorem requestReport_keeps_reserved:
  "fst (requestReport stale) = True \<and>
   reserved (report stale) = 0xEE \<and>
   reserved (report (snd (requestReport stale))) = 0xEE \<and>
   reserved2 (report stale) = 0xDD \<and>
   reserved2 (report (snd (requestReport stale))) = 0xDD \<and>
   fst (requestReport (stale\<lparr> report := report idle \<rparr>)) = True \<and>
   reserved (report (snd (requestReport (stale\<lparr> report := report idle \<rparr>)))) = 0 \<and>
   reserved2 (report (snd (requestReport (stale\<lparr> report := report idle \<rparr>)))) = 0"
  using requestReport_one_read [of stale example_report "[]"]
    requestReport_one_read [of "stale\<lparr> report := report idle \<rparr>" example_report "[]"]
  by (simp add: stale_def idle_def example_report_def assignReport_def)

lemma assignReport_reserved:
  "assignReport bs r =
     (assignReport bs r')\<lparr> reserved := reserved r, reserved2 := reserved2 r \<rparr>"
  by (simp add: assignReport_def)

text \<open>
  Claim C9 as amended. On every successful \<open>requestReport\<close>, every field of the
  stored report other than \<open>reserved\<close> and \<open>reserved2\<close> is overwritten with a value
  derived from the 18 response bytes alone: the stored report is the result of the
  assignments on the 18 bytes the polling loop collected, and had the driver held
  any other report \<open>r\<close> before the call, the call would have succeeded as well and
  the stored report would differ in nothing but \<open>reserved\<close> and \<open>reserved2\<close>, which
  keep their values from before the call.
\<close>

theorem requestReport_overwrites_all_but_reserved:
  assumes "fst (requestReport s)"
  shows "fst (requestReport (s\<lparr> report := r \<rparr>)) \<and>
     report (snd (requestReport (s\<lparr> report := r \<rparr>))) =
       (report (snd (requestReport s)))\<lparr> reserved := reserved r, reserved2 := reserved2 r \<rparr> \<and>
     reserved (report (snd (requestReport s))) = reserved (report s) \<and>
     reserved2 (report (snd (requestReport s))) = reserved2 (report s) \<and>
     (\<exists>bs. fst (readLoop (request_sent s) [] 0) = Some bs \<and> length bs = 18 \<and>
        report (snd (requestReport s)) = assignReport bs (report s))"
proof -
  have u: "request_sent (s\<lparr> report := r \<rparr>) = (request_sent s)\<lparr> report := r \<rparr>"
    by (simp add: request_sent_def)
  obtain res s' where l: "readLoop (request_sent s) [] 0 = (res, s')"
    by (metis prod.exhaust)
  with assms obtain bs where res: "res = Some bs"
    by (cases res) (simp_all add: requestReport_unfold)
  with l have len: "length bs = 18"
    using readLoop_length [of "request_sent s" "[]" 0 bs s'] by simp
  from l res have "readLoop (request_sent (s\<lparr> report := r \<rparr>)) [] 0 =
      (Some bs, s'\<lparr> report := r \<rparr>)"
    by (simp add: u readLoop_report_update)
  with l res len show ?thesis
    using assignReport_reserved [of bs r "report s"]
    by (simp add: requestReport_unfold assignReport_def)
qed

theorem requestReport_overwrites_all_but_reserved_witness:
  "fst (requestReport stale) \<and>
   fst (requestReport (stale\<lparr> report := report idle \<rparr>)) \<and>
   report (snd (requestReport (stale\<lparr> report := report idle \<rparr>))) =
     (report (snd (requestReport stale)))\<lparr> reserved := reserved (report idle),
        reserved2 := reserved2 (report idle) \<rparr> \<and>
   reserved (report (snd (requestReport stale))) = reserved (report stale) \<and>
   reserved2 (report (snd (requestReport stale))) = reserved2 (report stale) \<and>
   (\<exists>bs. fst (readLoop (request_sent stale) [] 0) = Some bs \<and> length bs = 18 \<and>
      report (snd (requestReport stale)) = assignReport bs (report stale))"
proof -
  have "fst (requestReport stale)"
    using requestReport_one_read [of stale example_report "[]"]
    by (simp add: stale_def example_report_def)
  with requestReport_overwrites_all_but_reserved [of stale "report idle"] show ?thesis
    by simp
qed

end
